theory Spec2Isabelle
  imports Complex_Main "HOL-Library.Multiset" "HOL-Library.AList"
begin

section \<open>Data model\<close>

text \<open>
  The durable rows of \<^verbatim>\<open>models.py\<close> and the two in-memory registries of
  \<^verbatim>\<open>app.py\<close> (\<^verbatim>\<open>rooms\<close>, \<^verbatim>\<open>active_matches\<close>). Strings stay strings, as in the
  source: statuses, round names, results and the \<^verbatim>\<open>'BYE'\<close> marker are compared as
  text there. A nullable column is an \<open>option\<close>. Time stamps
  (\<^verbatim>\<open>created_at\<close>, \<^verbatim>\<open>completed_at\<close>), the \<^verbatim>\<open>pgn\<close> column and the row ids of users
  and tournaments other than as lookup keys are left out: no function below reads them.
\<close>

type_synonym username = string
type_synonym sid = string

record user =
  total_matches :: int
  total_wins :: int
  total_losses :: int
  total_draws :: int
  tournaments_played :: int
  tournament_wins :: int
  elo_rating :: int

record tournament =
  t_status :: string
  participants :: "username list"
  winner_username :: "username option"
  current_round :: string
  rounds :: "(string \<times> (username \<times> username) list) list"

record match_row =
  tournament_id :: int
  round_name :: string
  white_player :: username
  black_player :: username
  winner :: "username option"
  result :: "string option"
  time_control :: int
  m_status :: string

text \<open>A bracket entry is the dictionary with keys white, black, winner, status, match_id.\<close>

record bracket_entry =
  be_white :: username
  be_black :: username
  be_winner :: "username option"
  be_status :: string
  be_match_id :: "int option"

text \<open>
  A room session. \<^verbatim>\<open>players\<close> is a Python dict, which keeps insertion order; the order
  is read by \<^verbatim>\<open>list(room['players'].keys())\<close>, so it is an association list.
\<close>

record room =
  room_tournament_id :: int
  admin :: username
  players :: "(username \<times> sid) list"
  match_requests :: "((username \<times> username) \<times> int) list"
  bracket :: "bracket_entry list"
  room_status :: string
  default_time :: int

record match_state =
  room_code :: string
  white :: username
  black :: username
  white_time :: int
  black_time :: int
  turn :: string
  fen :: string
  ms_status :: string

text \<open>
  What the handlers send. An \<^verbatim>\<open>emit('error', ...)\<close> goes to the calling connection
  and carries its message; the two outcome notifications carry winner and result; of
  every other notification the name and the addressee are kept.
\<close>

datatype target = To_sid sid | To_room string | To_match int | To_caller

datatype event =
    Error_ev string
  | Emit string target
  | Outcome_ev string target "username option" "string option"

text \<open>
  The whole server state: the two module-level dictionaries, the three tables and the
  notifications sent so far. \<^verbatim>\<open>rooms\<close> and the match table are association lists
  because the source iterates over them in order (\<^verbatim>\<open>rooms.items()\<close>,
  \<^verbatim>\<open>Match.query...all()\<close>); users are looked up by name, tournaments and match
  sessions by id only.
\<close>

record state =
  rooms :: "(string \<times> room) list"
  active_matches :: "int \<rightharpoonup> match_state"
  users :: "username \<rightharpoonup> user"
  tournaments :: "int \<rightharpoonup> tournament"
  matches :: "(int \<times> match_row) list"
  outbox :: "event list"

section \<open>Pure helpers\<close>

definition get_round_name :: "nat \<Rightarrow> string" where
  "get_round_name num_players =
     (if num_players \<le> 2 then ''Final''
      else if num_players \<le> 4 then ''Semi Final''
      else if num_players \<le> 8 then ''Quarter Final''
      else ''Round of 16'')"

text \<open>
  \<^verbatim>\<open>generate_bracket\<close>: \<^verbatim>\<open>random.shuffle\<close> is a parameter, the permutation it
  happened to produce; the loop \<^verbatim>\<open>for i in range(0, len(players) - 1, 2)\<close> runs
  \<open>length plist div 2\<close> times with \<open>i = 2 * j\<close>.
\<close>

definition pair_consecutive :: "username list \<Rightarrow> (username \<times> username) list" where
  "pair_consecutive plist =
     (let pairs = map (\<lambda>j. (plist ! (2 * j), plist ! (2 * j + 1)))
                      [0 ..< length plist div 2]
      in if length plist mod 2 = 1
         then pairs @ [(last plist, ''BYE'')]
         else pairs)"

definition generate_bracket ::
  "(username list \<Rightarrow> username list) \<Rightarrow> username list \<Rightarrow> (username \<times> username) list" where
  "generate_bracket shuffle plist = pair_consecutive (shuffle plist)"

text \<open>
  Python's \<^verbatim>\<open>round\<close> on a float rounds to the nearest integer and a tie to the even
  one.
\<close>

definition py_round :: "real \<Rightarrow> int" where
  "py_round x =
     (let f = \<lfloor>x\<rfloor>; d = x - of_int f
      in if d < 1 / 2 then f
         else if 1 / 2 < d then f + 1
         else if even f then f else f + 1)"

text \<open>
  \<^verbatim>\<open>calculate_elo\<close> over the real numbers, \<^verbatim>\<open>10 ** x\<close> as \<open>10 powr x\<close>: the
  idealisation that match termination below uses. It leaves out what double precision
  adds, the rounding of every operation and the \<^verbatim>\<open>OverflowError\<close> of a result outside
  the double range; \<open>calculate_elo_float\<close> below is the same function with both.
\<close>

definition calculate_elo :: "int \<Rightarrow> int \<Rightarrow> int \<Rightarrow> int \<times> int" where
  "calculate_elo winner_rating loser_rating k =
     (let expected_winner = 1 / (1 + 10 powr (of_int (loser_rating - winner_rating) / 400));
          expected_loser = 1 - expected_winner;
          new_winner = py_round (of_int winner_rating + of_int k * (1 - expected_winner));
          new_loser = py_round (of_int loser_rating + of_int k * (0 - expected_loser))
      in (new_winner, new_loser))"

subsection \<open>The rating function in double precision\<close>

text \<open>
  A Python float is an IEEE 754 double: a real number \<open>n * 2 ^ q\<close> with an integer
  \<open>n\<close> of at most 53 bits and \<open>q \<ge> - 1074\<close>. \<open>fl\<close> rounds a real number to the
  nearest double, a tie to the even significand, with the exponent not bounded above;
  \<open>ulp_exp x\<close> is the exponent of the last bit at the magnitude of \<open>x\<close>
  (\<open>- 1074\<close> in the subnormal range). A result of magnitude \<open>2 ^ 1024\<close> or more is
  outside the range: Python raises \<^verbatim>\<open>OverflowError\<close> when a conversion of an integer,
  a division of integers or a power gives one, and \<^verbatim>\<open>round\<close> raises it on the infinity
  that an addition gives.
\<close>

datatype error = AttributeError | OverflowError











section \<open>Notifications\<close>

definition emit :: "event \<Rightarrow> state \<Rightarrow> state" where
  "emit e s = s\<lparr>outbox := outbox s @ [e]\<rparr>"

definition emit_room_update :: "string \<Rightarrow> state \<Rightarrow> state" where
  "emit_room_update rc s =
     (case map_of (rooms s) rc of
        None \<Rightarrow> s
      | Some r \<Rightarrow> emit (Emit ''room_update'' (To_room rc)) s)"

definition emit_leaderboard :: "string \<Rightarrow> state \<Rightarrow> state" where
  "emit_leaderboard rc s =
     (case map_of (rooms s) rc of
        None \<Rightarrow> s
      | Some r \<Rightarrow>
          (case tournaments s (room_tournament_id r) of
             None \<Rightarrow> s
           | Some t \<Rightarrow> emit (Emit ''leaderboard_update'' (To_room rc)) s))"

section \<open>Round advancement\<close>

text \<open>
  A new row gets the next integer primary key; rows are appended, so the table stays in
  id order.
\<close>

definition fresh_id :: "(int \<times> match_row) list \<Rightarrow> int" where
  "fresh_id ms = fold max (map fst ms) 0 + 1"

text \<open>
  The loop \<^verbatim>\<open>for white, black in pairs\<close>, which \<^verbatim>\<open>check_round_complete\<close> and
  \<^verbatim>\<open>on_start_tournament\<close> both contain word for word: a bye gets a completed bracket
  entry and no row, a pair gets a pending row and a pending entry.
\<close>

fun pair_rows ::
  "int \<Rightarrow> string \<Rightarrow> int \<Rightarrow> (username \<times> username) list \<Rightarrow>
   (int \<times> match_row) list \<times> bracket_entry list \<Rightarrow>
   (int \<times> match_row) list \<times> bracket_entry list" where
  "pair_rows tid rn tc [] acc = acc"
| "pair_rows tid rn tc (p # rest) acc =
     (if snd p = ''BYE''
      then pair_rows tid rn tc rest
             (fst acc,
              snd acc @ [\<lparr>be_white = fst p, be_black = ''BYE'', be_winner = Some (fst p),
                          be_status = ''completed'', be_match_id = None\<rparr>])
      else let mid = fresh_id (fst acc)
           in pair_rows tid rn tc rest
                (fst acc @ [(mid, \<lparr>tournament_id = tid, round_name = rn,
                                     white_player = fst p, black_player = snd p,
                                     winner = None, result = None,
                                     time_control = tc, m_status = ''pending''\<rparr>)],
                 snd acc @ [\<lparr>be_white = fst p, be_black = snd p, be_winner = None,
                             be_status = ''pending'', be_match_id = Some mid\<rparr>]))"

definition upd_user :: "username \<Rightarrow> (user \<Rightarrow> user) \<Rightarrow> (username \<rightharpoonup> user) \<Rightarrow> (username \<rightharpoonup> user)" where
  "upd_user u f us = (case us u of None \<Rightarrow> us | Some r \<Rightarrow> us(u \<mapsto> f r))"

text \<open>The rows of the current round, and the loop that collects their winners.\<close>

definition current_round_matches :: "int \<Rightarrow> string \<Rightarrow> (int \<times> match_row) list \<Rightarrow> match_row list" where
  "current_round_matches tid rn ms =
     map snd (filter (\<lambda>im. tournament_id (snd im) = tid \<and> round_name (snd im) = rn) ms)"

definition collect_winners :: "match_row list \<Rightarrow> username list" where
  "collect_winners ms =
     concat (map (\<lambda>m. case winner m of
                         None \<Rightarrow> []
                       | Some w \<Rightarrow> if w \<noteq> [] \<and> w \<noteq> ''BYE'' then [w] else []) ms)"

definition check_round_complete ::
  "(username list \<Rightarrow> username list) \<Rightarrow> string \<Rightarrow> state \<Rightarrow> state" where
  "check_round_complete shuffle rc s =
     (case map_of (rooms s) rc of
        None \<Rightarrow> s
      | Some r \<Rightarrow>
          (case tournaments s (room_tournament_id r) of
             None \<Rightarrow> s
           | Some t \<Rightarrow>
               if t_status t \<noteq> ''active'' then s
               else
                 let crm = current_round_matches (room_tournament_id r) (current_round t) (matches s)
                 in if \<not> list_all (\<lambda>m. m_status m = ''completed'') crm then s
                    else
                      let winners = collect_winners crm
                      in if length winners = 1
                         then
                           let t1 = t\<lparr>t_status := ''completed'',
                                      winner_username := Some (hd winners)\<rparr>;
                               r1 = r\<lparr>room_status := ''completed''\<rparr>;
                               us1 = upd_user (hd winners)
                                       (\<lambda>u. u\<lparr>tournament_wins := tournament_wins u + 1\<rparr>) (users s);
                               us2 = fold (\<lambda>n. upd_user n
                                       (\<lambda>u. u\<lparr>tournaments_played := tournaments_played u + 1\<rparr>))
                                       (map fst (players r1)) us1;
                               s1 = s\<lparr>rooms := AList.update rc r1 (rooms s),
                                      users := us2,
                                      tournaments := (tournaments s)(room_tournament_id r \<mapsto> t1)\<rparr>
                           in emit_leaderboard rc
                                (emit (Emit ''tournament_complete'' (To_room rc)) s1)
                         else
                           let rn = get_round_name (length winners);
                               pairs = generate_bracket shuffle winners;
                               mb = pair_rows (room_tournament_id r) rn (default_time r) pairs
                                      (matches s, []);
                               t1 = t\<lparr>current_round := rn, rounds := rounds t @ [(rn, pairs)]\<rparr>;
                               r1 = r\<lparr>bracket := snd mb\<rparr>;
                               s1 = s\<lparr>rooms := AList.update rc r1 (rooms s),
                                      tournaments := (tournaments s)(room_tournament_id r \<mapsto> t1),
                                      matches := fst mb\<rparr>
                           in emit_leaderboard rc (emit (Emit ''new_round'' (To_room rc)) s1)))"

section \<open>Match termination\<close>

text \<open>
  The counters and ratings. \<^verbatim>\<open>white_user\<close> and \<^verbatim>\<open>black_user\<close> are references into
  the user table, so each assignment is an update of the table at that name, in the
  order of the source, and each read sees the updates before it.
\<close>

definition rating :: "(username \<rightharpoonup> user) \<Rightarrow> username \<Rightarrow> int" where
  "rating us n = (case us n of None \<Rightarrow> 0 | Some u \<Rightarrow> elo_rating u)"

definition update_stats ::
  "match_row \<Rightarrow> username option \<Rightarrow> string option \<Rightarrow> (username \<rightharpoonup> user) \<Rightarrow> (username \<rightharpoonup> user)" where
  "update_stats m win res us =
     (let w = white_player m; b = black_player m
      in if us w = None \<or> us b = None then us
         else
           let us1 = upd_user w (\<lambda>u. u\<lparr>total_matches := total_matches u + 1\<rparr>) us;
               us2 = upd_user b (\<lambda>u. u\<lparr>total_matches := total_matches u + 1\<rparr>) us1
           in if res = Some ''draw''
              then upd_user b (\<lambda>u. u\<lparr>total_draws := total_draws u + 1\<rparr>)
                     (upd_user w (\<lambda>u. u\<lparr>total_draws := total_draws u + 1\<rparr>) us2)
              else if win = Some w
              then
                let us3 = upd_user w (\<lambda>u. u\<lparr>total_wins := total_wins u + 1\<rparr>) us2;
                    us4 = upd_user b (\<lambda>u. u\<lparr>total_losses := total_losses u + 1\<rparr>) us3;
                    new = calculate_elo (rating us4 w) (rating us4 b) 32
                in upd_user b (\<lambda>u. u\<lparr>elo_rating := snd new\<rparr>)
                     (upd_user w (\<lambda>u. u\<lparr>elo_rating := fst new\<rparr>) us4)
              else if win = Some b
              then
                let us3 = upd_user b (\<lambda>u. u\<lparr>total_wins := total_wins u + 1\<rparr>) us2;
                    us4 = upd_user w (\<lambda>u. u\<lparr>total_losses := total_losses u + 1\<rparr>) us3;
                    new = calculate_elo (rating us4 b) (rating us4 w) 32
                in upd_user w (\<lambda>u. u\<lparr>elo_rating := snd new\<rparr>)
                     (upd_user b (\<lambda>u. u\<lparr>elo_rating := fst new\<rparr>) us4)
              else us2)"

text \<open>The loop over the bracket stops at the first entry of this match (\<^verbatim>\<open>break\<close>).\<close>

fun mark_bracket :: "int \<Rightarrow> username option \<Rightarrow> bracket_entry list \<Rightarrow> bracket_entry list" where
  "mark_bracket mid win [] = []"
| "mark_bracket mid win (e # es) =
     (if be_match_id e = Some mid
      then e\<lparr>be_winner := win, be_status := ''completed''\<rparr> # es
      else e # mark_bracket mid win es)"

definition handle_match_end ::
  "(username list \<Rightarrow> username list) \<Rightarrow> int \<Rightarrow> username option \<Rightarrow> string option \<Rightarrow> state \<Rightarrow> state" where
  "handle_match_end shuffle mid win res s =
     (case active_matches s mid of
        None \<Rightarrow> s
      | Some st \<Rightarrow>
          if ms_status st \<noteq> ''active'' then s
          else
            let s1 = s\<lparr>active_matches := (active_matches s)(mid \<mapsto> st\<lparr>ms_status := ''completed''\<rparr>)\<rparr>
            in case map_of (matches s1) mid of
                 None \<Rightarrow> s1
               | Some m \<Rightarrow>
                   let m1 = m\<lparr>winner := win, result := res, m_status := ''completed''\<rparr>;
                       s2 = s1\<lparr>matches := AList.update mid m1 (matches s1),
                               users := update_stats m1 win res (users s1)\<rparr>;
                       s3 = emit (Outcome_ev ''game_ended'' (To_match mid) win res) s2;
                       s4 = (case map_of (rooms s3) (room_code st) of
                               None \<Rightarrow> s3
                             | Some r \<Rightarrow>
                                 if room_code st = [] then s3
                                 else
                                   let r1 = r\<lparr>bracket := mark_bracket mid win (bracket r)\<rparr>;
                                       s31 = s3\<lparr>rooms := AList.update (room_code st) r1 (rooms s3)\<rparr>;
                                       s32 = emit (Outcome_ev ''match_result''
                                                     (To_room (room_code st)) win res) s31;
                                       s33 = emit_leaderboard (room_code st) s32
                                   in if round_name m1 \<noteq> ''Friendly''
                                      then check_round_complete shuffle (room_code st) s33
                                      else s33)
                   in s4\<lparr>active_matches := (active_matches s4)(mid := None)\<rparr>)"

section \<open>Match session events\<close>



definition on_resign ::
  "(username list \<Rightarrow> username list) \<Rightarrow> int \<Rightarrow> username option \<Rightarrow> state \<Rightarrow> state" where
  "on_resign shuffle mid caller s =
     (case active_matches s mid of
        None \<Rightarrow> s
      | Some st \<Rightarrow>
          if ms_status st \<noteq> ''active'' then s
          else if caller \<noteq> Some (white st) \<and> caller \<noteq> Some (black st) then s
          else
            let win = (if caller = Some (white st) then black st else white st)
            in handle_match_end shuffle mid (Some win) (Some ''resignation'') s)"





section \<open>Room events\<close>

definition on_join_room :: "string \<Rightarrow> sid \<Rightarrow> username option \<Rightarrow> state \<Rightarrow> state" where
  "on_join_room rc conn caller s =
     (case (caller, map_of (rooms s) rc) of
        (Some u, Some r) \<Rightarrow>
          if u = [] then emit (Error_ev ''Invalid room or not logged in'') s
          else if room_status r \<noteq> ''waiting'' \<and> map_of (players r) u = None
          then emit (Error_ev ''Tournament already in progress'') s
          else if 10 \<le> length (players r) \<and> map_of (players r) u = None
          then emit (Error_ev ''Room is full'') s
          else
            let r1 = r\<lparr>players := AList.update u conn (players r)\<rparr>;
                s1 = s\<lparr>rooms := AList.update rc r1 (rooms s)\<rparr>;
                s2 = (case tournaments s1 (room_tournament_id r) of
                        None \<Rightarrow> s1
                      | Some t \<Rightarrow>
                          s1\<lparr>tournaments := (tournaments s1)(room_tournament_id r \<mapsto>
                                t\<lparr>participants :=
                                    (if u \<in> set (participants t) then participants t
                                     else participants t @ [u])\<rparr>)\<rparr>)
            in emit_room_update rc (emit (Emit ''joined_room'' To_caller) s2)
      | _ \<Rightarrow> emit (Error_ev ''Invalid room or not logged in'') s)"

text \<open>
  \<^verbatim>\<open>on_disconnect\<close> walks the rooms in order and stops at the first one that lists the
  user (\<^verbatim>\<open>break\<close>).
\<close>

fun disconnect_scan :: "username \<Rightarrow> (string \<times> room) list \<Rightarrow> state \<Rightarrow> state" where
  "disconnect_scan u [] s = s"
| "disconnect_scan u (cr # rest) s =
     (if map_of (players (snd cr)) u = None then disconnect_scan u rest s
      else
        let r1 = (snd cr)\<lparr>players := AList.delete u (players (snd cr))\<rparr>;
            s1 = s\<lparr>rooms := AList.update (fst cr) r1 (rooms s)\<rparr>;
            s2 = (if room_status r1 = ''waiting''
                  then (case tournaments s1 (room_tournament_id r1) of
                          None \<Rightarrow> s1
                        | Some t \<Rightarrow>
                            s1\<lparr>tournaments := (tournaments s1)(room_tournament_id r1 \<mapsto>
                                  t\<lparr>participants := remove1 u (participants t)\<rparr>)\<rparr>)
                  else s1)
        in emit (Emit ''player_left'' (To_room (fst cr))) (emit_room_update (fst cr) s2))"

definition on_disconnect :: "username option \<Rightarrow> state \<Rightarrow> state" where
  "on_disconnect caller s =
     (case caller of
        None \<Rightarrow> s
      | Some u \<Rightarrow> if u = [] then s else disconnect_scan u (rooms s) s)"

definition on_remove_player :: "string \<Rightarrow> username \<Rightarrow> username option \<Rightarrow> state \<Rightarrow> state" where
  "on_remove_player rc tgt caller s =
     (case (caller, map_of (rooms s) rc) of
        (Some u, Some r) \<Rightarrow>
          if u = [] then s
          else if u \<noteq> admin r then emit (Error_ev ''Only admin can remove players'') s
          else
            (case map_of (players r) tgt of
               None \<Rightarrow> s
             | Some target_sid \<Rightarrow>
                 emit_room_update rc
                   (emit (Emit ''kicked'' (To_sid target_sid))
                      (s\<lparr>rooms := AList.update rc
                                    (r\<lparr>players := AList.delete tgt (players r)\<rparr>) (rooms s)\<rparr>)))
      | _ \<Rightarrow> s)"

section \<open>Starting a tournament\<close>

text \<open>
  \<^verbatim>\<open>tournament.status = 'active'\<close> on a missing tournament row raises; that is the one
  raise of these handlers, and the model returns it as the error value
  \<open>AttributeError\<close> (the in-memory writes made before it are not kept in the value).
\<close>

definition new_session :: "string \<Rightarrow> username \<Rightarrow> username \<Rightarrow> int \<Rightarrow> match_state" where
  "new_session rc w b tc =
     \<lparr>room_code = rc, white = w, black = b, white_time = tc, black_time = tc,
      turn = ''w'', fen = ''rnbqkbnr/pppppppp/8/8/8/8/PPPPPPPP/RNBQKBNR w KQkq - 0 1'',
      ms_status = ''active''\<rparr>"

definition notify_started :: "(username \<times> sid) list \<Rightarrow> username \<Rightarrow> state \<Rightarrow> state" where
  "notify_started ps p s =
     (case map_of ps p of
        None \<Rightarrow> s
      | Some c \<Rightarrow> if c = [] then s else emit (Emit ''match_started'' (To_sid c)) s)"

text \<open>
  The loop \<^verbatim>\<open>for entry in bracket\<close> that opens a session per pending entry. An entry
  that is not completed always carries the id of the row made for it.
\<close>

fun start_sessions ::
  "string \<Rightarrow> int \<Rightarrow> (username \<times> sid) list \<Rightarrow> bracket_entry list \<Rightarrow> state \<Rightarrow> state" where
  "start_sessions rc tc ps [] s = s"
| "start_sessions rc tc ps (e # es) s =
     (if be_status e = ''completed'' then start_sessions rc tc ps es s
      else
        (case be_match_id e of
           None \<Rightarrow> start_sessions rc tc ps es s
         | Some mid \<Rightarrow>
             let s1 = s\<lparr>active_matches :=
                         (active_matches s)(mid \<mapsto> new_session rc (be_white e) (be_black e) tc)\<rparr>;
                 s2 = (case map_of (matches s1) mid of
                         None \<Rightarrow> s1
                       | Some m \<Rightarrow>
                           s1\<lparr>matches := AList.update mid (m\<lparr>m_status := ''active''\<rparr>) (matches s1)\<rparr>)
             in start_sessions rc tc ps es
                  (notify_started ps (be_black e) (notify_started ps (be_white e) s2))))"

definition on_start_tournament ::
  "(username list \<Rightarrow> username list) \<Rightarrow> string \<Rightarrow> int \<Rightarrow> username option \<Rightarrow> state \<Rightarrow> error + state" where
  "on_start_tournament shuffle rc tc caller s =
     (case (caller, map_of (rooms s) rc) of
        (Some u, Some r) \<Rightarrow>
          if u = [] then Inr s
          else if u \<noteq> admin r then Inr (emit (Error_ev ''Only admin can start tournament'') s)
          else
            let names = map fst (players r)
            in if length names < 2
               then Inr (emit (Error_ev ''Need at least 2 players to start'') s)
               else if 10 < length names
               then Inr (emit (Error_ev ''Maximum 10 players allowed'') s)
               else
                 (case tournaments s (room_tournament_id r) of
                    None \<Rightarrow> Inl AttributeError
                  | Some t \<Rightarrow>
                      let rn = get_round_name (length names);
                          pairs = generate_bracket shuffle names;
                          mb = pair_rows (room_tournament_id r) rn tc pairs (matches s, []);
                          t1 = t\<lparr>t_status := ''active'', participants := names,
                                 current_round := rn, rounds := [(rn, pairs)]\<rparr>;
                          r1 = r\<lparr>room_status := ''active'', default_time := tc,
                                 bracket := snd mb\<rparr>;
                          s1 = s\<lparr>rooms := AList.update rc r1 (rooms s),
                                 tournaments := (tournaments s)(room_tournament_id r \<mapsto> t1),
                                 matches := fst mb\<rparr>;
                          s2 = emit_leaderboard rc (emit (Emit ''tournament_started'' (To_room rc)) s1)
                      in Inr (start_sessions rc tc (players r1) (snd mb) s2))
      | _ \<Rightarrow> Inr s)"

section \<open>Friendly matches\<close>



section \<open>Vocabulary of the properties\<close>

text \<open>All slots of a list of pairs, in order, and the pairs that hold the bye marker.\<close>

definition slots :: "(username \<times> username) list \<Rightarrow> username list" where
  "slots pairs = concat (map (\<lambda>p. [fst p, snd p]) pairs)"

definition has_bye :: "username \<times> username \<Rightarrow> bool" where
  "has_bye p = (fst p = ''BYE'' \<or> snd p = ''BYE'')"






text \<open>
  The two notifications by which \<^verbatim>\<open>check_round_complete\<close> announces that it has
  advanced the tournament, and how many of them have been sent.
\<close>

definition is_advance :: "event \<Rightarrow> bool" where
  "is_advance e =
     (case e of
        Emit n t \<Rightarrow> n = ''tournament_complete'' \<or> n = ''new_round''
      | _ \<Rightarrow> False)"

definition advances :: "state \<Rightarrow> nat" where
  "advances s = length (filter is_advance (outbox s))"



section \<open>Example states\<close>

text \<open>A user as \<^verbatim>\<open>User(username=...)\<close> creates it: the column defaults.\<close>

definition new_user :: user where
  "new_user = \<lparr>total_matches = 0, total_wins = 0, total_losses = 0, total_draws = 0,
               tournaments_played = 0, tournament_wins = 0, elo_rating = 1200\<rparr>"

text \<open>
  A room in which alice (the admin), bob and carol wait: the state after
  \<^verbatim>\<open>create_room\<close> and three joins.
\<close>

definition lobby3 :: state where
  "lobby3 =
     \<lparr>rooms = [(''ROOM01'',
                 \<lparr>room_tournament_id = 1, admin = ''alice'',
                  players = [(''alice'', ''s1''), (''bob'', ''s2''), (''carol'', ''s3'')],
                  match_requests = [], bracket = [], room_status = ''waiting'',
                  default_time = 300\<rparr>)],
      active_matches = Map.empty,
      users = [''alice'' \<mapsto> new_user, ''bob'' \<mapsto> new_user, ''carol'' \<mapsto> new_user],
      tournaments = [1 \<mapsto> \<lparr>t_status = ''waiting'',
                              participants = [''alice'', ''bob'', ''carol''],
                              winner_username = None, current_round = [], rounds = []\<rparr>],
      matches = [], outbox = []\<rparr>"

text \<open>
  The same room once alice has started the tournament and the shuffle left the order
  as it was: alice plays bob, carol has the bye.
\<close>

definition started3 :: state where
  "started3 =
     \<lparr>rooms = [(''ROOM01'',
                 \<lparr>room_tournament_id = 1, admin = ''alice'',
                  players = [(''alice'', ''s1''), (''bob'', ''s2''), (''carol'', ''s3'')],
                  match_requests = [],
                  bracket = [\<lparr>be_white = ''alice'', be_black = ''bob'', be_winner = None,
                              be_status = ''pending'', be_match_id = Some 1\<rparr>,
                             \<lparr>be_white = ''carol'', be_black = ''BYE'', be_winner = Some ''carol'',
                              be_status = ''completed'', be_match_id = None\<rparr>],
                  room_status = ''active'', default_time = 300\<rparr>)],
      active_matches = [1 \<mapsto> new_session ''ROOM01'' ''alice'' ''bob'' 300],
      users = [''alice'' \<mapsto> new_user, ''bob'' \<mapsto> new_user, ''carol'' \<mapsto> new_user],
      tournaments = [1 \<mapsto> \<lparr>t_status = ''active'',
                              participants = [''alice'', ''bob'', ''carol''],
                              winner_username = None, current_round = ''Semi Final'',
                              rounds = [(''Semi Final'', [(''alice'', ''bob''), (''carol'', ''BYE'')])]\<rparr>],
      matches = [(1, \<lparr>tournament_id = 1, round_name = ''Semi Final'',
                       white_player = ''alice'', black_player = ''bob'',
                       winner = None, result = None, time_control = 300,
                       m_status = ''active''\<rparr>)],
      outbox = [Emit ''tournament_started'' (To_room ''ROOM01''),
                Emit ''leaderboard_update'' (To_room ''ROOM01''),
                Emit ''match_started'' (To_sid ''s1''),
                Emit ''match_started'' (To_sid ''s2'')]\<rparr>"












section \<open>The Bracket Generator\<close>

lemma pair_consecutive_Nil: "pair_consecutive [] = []"
  by (simp add: pair_consecutive_def)

lemma pair_consecutive_single: "pair_consecutive [a] = [(a, ''BYE'')]"
  by (simp add: pair_consecutive_def)

text \<open>The index loop, read from the front of the list: it takes two players at a time.\<close>

lemma pair_consecutive_step:
  "pair_consecutive (a # b # rest) = (a, b) # pair_consecutive rest"
proof -
  have len: "length (a # b # rest) div 2 = Suc (length rest div 2)" by simp
  have idx: "[0 ..< Suc (length rest div 2)] = 0 # map Suc [0 ..< length rest div 2]"
    by (simp add: upt_conv_Cons map_Suc_upt del: upt_Suc)
  have par: "(length (a # b # rest) mod 2 = 1) = (length rest mod 2 = 1)"
    by simp
  have lst: "length rest mod 2 = 1 \<Longrightarrow> last (a # b # rest) = last rest"
    by (cases rest) auto
  show ?thesis
    unfolding pair_consecutive_def Let_def len idx par
    by (auto simp: lst comp_def)
qed

lemma pair_consecutive_length: "length (pair_consecutive ps) = (length ps + 1) div 2"
proof (induction ps rule: induct_list012)
  case 1 show ?case by (simp add: pair_consecutive_Nil)
next
  case (2 a) show ?case by (simp add: pair_consecutive_single)
next
  case (3 a b rest) then show ?case by (simp add: pair_consecutive_step)
qed

lemma pair_consecutive_slots:
  "slots (pair_consecutive ps) = ps @ (if odd (length ps) then [''BYE''] else [])"
proof (induction ps rule: induct_list012)
  case 1 show ?case by (simp add: pair_consecutive_Nil slots_def)
next
  case (2 a) show ?case by (simp add: pair_consecutive_single slots_def)
next
  case (3 a b rest) then show ?case by (simp add: pair_consecutive_step slots_def)
qed

lemma pair_consecutive_byes:
  "''BYE'' \<notin> set ps \<Longrightarrow>
   length (filter has_bye (pair_consecutive ps)) = (if odd (length ps) then 1 else 0)"
proof (induction ps rule: induct_list012)
  case 1 show ?case by (simp add: pair_consecutive_Nil)
next
  case (2 a) then show ?case by (simp add: pair_consecutive_single has_bye_def)
next
  case (3 a b rest) then show ?case by (auto simp add: pair_consecutive_step has_bye_def)
qed

lemma pair_consecutive_last:
  "odd (length ps) \<Longrightarrow> last (pair_consecutive ps) = (last ps, ''BYE'')"
  by (simp add: pair_consecutive_def odd_iff_mod_2_eq_one)

text \<open>
  C9, as the code has it. Whatever permutation the shuffle produces, a list of \<open>n\<close>
  participants gives \<open>(n + 1) div 2\<close> pairs; the slots of the pairs hold the
  participants, each as often as the input lists it, and one bye marker more exactly
  when \<open>n\<close> is odd, so that in a list without repetition every participant not named
  \<^verbatim>\<open>BYE\<close> fills exactly one slot; when \<open>n\<close> is odd the added marker is the second slot
  of the last pair. The marker is the string \<^verbatim>\<open>BYE\<close>: only when no participant has
  that name is the number of pairs holding it one for odd \<open>n\<close> and zero for even \<open>n\<close>.
\<close>

theorem generate_bracket_pairs:
  assumes perm: "mset (shuffle ps) = mset ps"
  shows "length (generate_bracket shuffle ps) = (length ps + 1) div 2 \<and>
         mset (slots (generate_bracket shuffle ps)) =
           mset ps + (if odd (length ps) then {#''BYE''#} else {#}) \<and>
         (distinct ps \<longrightarrow>
            (\<forall>p \<in> set ps. p \<noteq> ''BYE'' \<longrightarrow>
               count_list (slots (generate_bracket shuffle ps)) p = 1)) \<and>
         (''BYE'' \<notin> set ps \<longrightarrow>
            length (filter has_bye (generate_bracket shuffle ps)) =
              (if odd (length ps) then 1 else 0)) \<and>
         (odd (length ps) \<longrightarrow> snd (last (generate_bracket shuffle ps)) = ''BYE'')"
proof -
  let ?qs = "shuffle ps"
  have len: "length ?qs = length ps"
    using perm by (rule mset_eq_length)
  have st: "set ?qs = set ps"
    using perm by (rule mset_eq_setD)
  have a: "length (generate_bracket shuffle ps) = (length ps + 1) div 2"
    by (simp add: generate_bracket_def pair_consecutive_length len)
  have b: "mset (slots (generate_bracket shuffle ps)) =
             mset ps + (if odd (length ps) then {#''BYE''#} else {#})"
    by (simp add: generate_bracket_def pair_consecutive_slots len perm)
  have c: "\<forall>p \<in> set ps. p \<noteq> ''BYE'' \<longrightarrow>
             count_list (slots (generate_bracket shuffle ps)) p = 1"
    if d: "distinct ps"
  proof (intro ballI impI)
    fix p assume p: "p \<in> set ps" and n: "p \<noteq> ''BYE''"
    have "count (mset (slots (generate_bracket shuffle ps))) p = count (mset ps) p"
      using n by (simp add: b)
    also have "\<dots> = 1"
      using d p by (simp add: distinct_count_atmost_1)
    finally show "count_list (slots (generate_bracket shuffle ps)) p = 1"
      by (simp add: count_mset)
  qed
  have d: "length (filter has_bye (generate_bracket shuffle ps)) =
             (if odd (length ps) then 1 else 0)" if "''BYE'' \<notin> set ps"
    using that pair_consecutive_byes [of ?qs] by (simp add: generate_bracket_def len st)
  have e: "snd (last (generate_bracket shuffle ps)) = ''BYE''" if "odd (length ps)"
    using that by (simp add: generate_bracket_def pair_consecutive_last len)
  from a b c d e show ?thesis by blast
qed

theorem generate_bracket_pairs_witness:
  "mset (rev [''ann'', ''bob'', ''cat'']) = mset [''ann'', ''bob'', ''cat''] \<and>
   generate_bracket rev [''ann'', ''bob'', ''cat''] = [(''cat'', ''bob''), (''ann'', ''BYE'')] \<and>
   length (generate_bracket rev [''ann'', ''bob'', ''cat'']) = 2 \<and>
   count_list (slots (generate_bracket rev [''ann'', ''bob'', ''cat''])) ''ann'' = 1 \<and>
   length (filter has_bye (generate_bracket rev [''ann'', ''bob'', ''cat''])) = 1 \<and>
   snd (last (generate_bracket rev [''ann'', ''bob'', ''cat''])) = ''BYE''"
proof -
  have perm: "mset (rev [''ann'', ''bob'', ''cat'']) = mset [''ann'', ''bob'', ''cat'']"
    by simp
  have ev: "generate_bracket rev [''ann'', ''bob'', ''cat''] = [(''cat'', ''bob''), (''ann'', ''BYE'')]"
    by (simp add: generate_bracket_def pair_consecutive_step pair_consecutive_single)
  show ?thesis
    using generate_bracket_pairs [of rev "[''ann'', ''bob'', ''cat'']"] perm ev by simp
qed

text \<open>
  \<^verbatim>\<open>BYE\<close> passes the filter of the login form. With a participant of that name, three
  participants give two pairs that hold the marker, and two participants, in either
  order, give a pair that holds it although their number is even.
\<close>

theorem participant_named_bye:
  "generate_bracket (\<lambda>x. x) [''ann'', ''BYE'', ''cat''] = [(''ann'', ''BYE''), (''cat'', ''BYE'')] \<and>
   length (filter has_bye (generate_bracket (\<lambda>x. x) [''ann'', ''BYE'', ''cat''])) = 2 \<and>
   generate_bracket (\<lambda>x. x) [''ann'', ''BYE''] = [(''ann'', ''BYE'')] \<and>
   generate_bracket rev [''ann'', ''BYE''] = [(''BYE'', ''ann'')] \<and>
   length (filter has_bye (generate_bracket (\<lambda>x. x) [''ann'', ''BYE''])) = 1 \<and>
   length (filter has_bye (generate_bracket rev [''ann'', ''BYE''])) = 1"
  by (simp add: generate_bracket_def pair_consecutive_step pair_consecutive_single
      pair_consecutive_Nil has_bye_def)

section \<open>The Rating Engine\<close>
































section \<open>Frame lemmas\<close>

lemma emit_fields [simp]:
  "rooms (emit e s) = rooms s" "active_matches (emit e s) = active_matches s"
  "users (emit e s) = users s" "tournaments (emit e s) = tournaments s"
  "matches (emit e s) = matches s" "outbox (emit e s) = outbox s @ [e]"
  by (simp_all add: emit_def)

lemma emit_leaderboard_fields [simp]:
  "rooms (emit_leaderboard rc s) = rooms s"
  "active_matches (emit_leaderboard rc s) = active_matches s"
  "users (emit_leaderboard rc s) = users s"
  "tournaments (emit_leaderboard rc s) = tournaments s"
  "matches (emit_leaderboard rc s) = matches s"
  by (simp_all add: emit_leaderboard_def split: option.splits)

lemma check_round_complete_sessions [simp]:
  "active_matches (check_round_complete sh rc s) = active_matches s"
  by (simp add: check_round_complete_def Let_def split: option.splits)







lemma upd_user_None [simp]: "(upd_user n f us x = None) = (us x = None)"
  by (simp add: upd_user_def split: option.splits)







text \<open>Counting the advancement notifications.\<close>

lemma advances_emit [simp]:
  "advances (emit e s) = advances s + (if is_advance e then 1 else 0)"
  by (simp add: advances_def)

lemma advances_emit_leaderboard [simp]:
  "advances (emit_leaderboard rc s) = advances s"
  by (simp add: emit_leaderboard_def is_advance_def split: option.splits)

lemma advances_updates [simp]:
  "advances (rooms_update f1 s) = advances s"
  "advances (active_matches_update f2 s) = advances s"
  "advances (users_update f3 s) = advances s"
  "advances (tournaments_update f4 s) = advances s"
  "advances (matches_update f5 s) = advances s"
  by (simp_all add: advances_def)


lemma advances_check_round_exact:
  assumes "map_of (rooms s) rc = Some rm" and "tournaments s (room_tournament_id rm) = Some t"
      and "t_status t = ''active''"
      and "list_all (\<lambda>m. m_status m = ''completed'')
             (current_round_matches (room_tournament_id rm) (current_round t) (matches s))"
  shows "advances (check_round_complete sh rc s) = advances s + 1"
  using assms
  by (simp add: check_round_complete_def Let_def is_advance_def)



section \<open>Termination of a match\<close>























section \<open>Clock expiry\<close>



section \<open>The winner of a completed match\<close>




section \<open>A session without a match row\<close>





section \<open>Byes at the end of a round\<close>

lemma generate_bracket_three:
  "generate_bracket (\<lambda>x. x) [''alice'', ''bob'', ''carol''] =
     [(''alice'', ''bob''), (''carol'', ''BYE'')]"
  by (simp add: generate_bracket_def pair_consecutive_step pair_consecutive_single)

text \<open>
  C1, on the code. Three players start a tournament; alice plays bob and carol gets the
  bye, a bracket entry completed with carol as winner and no row. Bob resigns. The
  winners that \<^verbatim>\<open>check_round_complete\<close> collects from the rows of the round are alice
  alone, so it declares the tournament completed with alice as winner: carol, the bye of
  the round, is not among the winners and never plays.
\<close>

theorem bye_dropped_at_round_end:
  "on_start_tournament (\<lambda>x. x) ''ROOM01'' 300 (Some ''alice'') lobby3 = Inr started3 \<and>
   collect_winners (current_round_matches 1 ''Semi Final''
       (matches (on_resign (\<lambda>x. x) 1 (Some ''bob'') started3))) = [''alice''] \<and>
   tournaments (on_resign (\<lambda>x. x) 1 (Some ''bob'') started3) 1 =
     Some \<lparr>t_status = ''completed'', participants = [''alice'', ''bob'', ''carol''],
           winner_username = Some ''alice'', current_round = ''Semi Final'',
           rounds = [(''Semi Final'', [(''alice'', ''bob''), (''carol'', ''BYE'')])]\<rparr>"
proof -
  have a: "on_start_tournament (\<lambda>x. x) ''ROOM01'' 300 (Some ''alice'') lobby3 = Inr started3"
    by (simp add: on_start_tournament_def lobby3_def started3_def generate_bracket_three
        get_round_name_def fresh_id_def emit_def emit_leaderboard_def notify_started_def Let_def)
  have b: "collect_winners (current_round_matches 1 ''Semi Final''
       (matches (on_resign (\<lambda>x. x) 1 (Some ''bob'') started3))) = [''alice'']"
    by (simp add: on_resign_def started3_def handle_match_end_def new_session_def
        check_round_complete_def current_round_matches_def collect_winners_def
        emit_def emit_leaderboard_def Let_def)
  have c: "tournaments (on_resign (\<lambda>x. x) 1 (Some ''bob'') started3) 1 =
     Some \<lparr>t_status = ''completed'', participants = [''alice'', ''bob'', ''carol''],
           winner_username = Some ''alice'', current_round = ''Semi Final'',
           rounds = [(''Semi Final'', [(''alice'', ''bob''), (''carol'', ''BYE'')])]\<rparr>"
    by (simp add: on_resign_def started3_def handle_match_end_def new_session_def
        check_round_complete_def current_round_matches_def collect_winners_def
        emit_def emit_leaderboard_def Let_def)
  from a b c show ?thesis by blast
qed

section \<open>Room events on the example room\<close>

text \<open>
  C4, on the code. The tournament of the room is already active; alice, the admin,
  sends \<^verbatim>\<open>start_tournament\<close> again. The handler has no test of the status: it pairs the
  players anew, adds a second row to the match table, replaces the bracket and sends
  the start notifications a second time.
\<close>

theorem restart_of_running_tournament:
  "map_option room_status (map_of (rooms started3) ''ROOM01'') = Some ''active'' \<and>
   map_sum (\<lambda>e. e) (\<lambda>s'. map fst (matches s'))
     (on_start_tournament (\<lambda>x. x) ''ROOM01'' 300 (Some ''alice'') started3) = Inr [1, 2] \<and>
   map_sum (\<lambda>e. e)
     (\<lambda>s'. map_option (\<lambda>r. map be_match_id (bracket r)) (map_of (rooms s') ''ROOM01''))
     (on_start_tournament (\<lambda>x. x) ''ROOM01'' 300 (Some ''alice'') started3) =
       Inr (Some [Some 2, None]) \<and>
   map_sum (\<lambda>e. e) (\<lambda>s'. length (outbox s'))
     (on_start_tournament (\<lambda>x. x) ''ROOM01'' 300 (Some ''alice'') started3) = Inr 8"
  by (simp add: on_start_tournament_def started3_def generate_bracket_three get_round_name_def
      fresh_id_def emit_def emit_leaderboard_def notify_started_def Let_def)

text \<open>
  C5, on the code. Bob, a participant of the active tournament, disconnects: he leaves
  the room's players and stays in the tournament's participants. His next join is
  answered with \<^verbatim>\<open>Tournament already in progress\<close> and changes nothing else, because the
  handler looks for him among the connected players.
\<close>

theorem rejoin_after_disconnect_rejected:
  "map_option participants (tournaments (on_disconnect (Some ''bob'') started3) 1) =
     Some [''alice'', ''bob'', ''carol''] \<and>
   map_option (\<lambda>r. map fst (players r))
     (map_of (rooms (on_disconnect (Some ''bob'') started3)) ''ROOM01'') =
     Some [''alice'', ''carol''] \<and>
   on_join_room ''ROOM01'' ''s9'' (Some ''bob'') (on_disconnect (Some ''bob'') started3) =
     emit (Error_ev ''Tournament already in progress'') (on_disconnect (Some ''bob'') started3)"
  by (simp add: on_disconnect_def on_join_room_def started3_def emit_def emit_room_update_def
      Let_def)

text \<open>
  C6, on the code. In the waiting room, carol's disconnect removes her from the players
  and from the participants and sends \<^verbatim>\<open>player_left\<close> to the room. Her removal by the
  admin removes her from the players and sends \<^verbatim>\<open>kicked\<close> to her and a room update; she
  stays in the participants and no \<^verbatim>\<open>player_left\<close> is sent.
\<close>

theorem remove_is_not_leave:
  "map_option participants (tournaments (on_disconnect (Some ''carol'') lobby3) 1) =
     Some [''alice'', ''bob''] \<and>
   outbox (on_disconnect (Some ''carol'') lobby3) =
     [Emit ''room_update'' (To_room ''ROOM01''), Emit ''player_left'' (To_room ''ROOM01'')] \<and>
   map_option participants
     (tournaments (on_remove_player ''ROOM01'' ''carol'' (Some ''alice'') lobby3) 1) =
     Some [''alice'', ''bob'', ''carol''] \<and>
   outbox (on_remove_player ''ROOM01'' ''carol'' (Some ''alice'') lobby3) =
     [Emit ''kicked'' (To_sid ''s3''), Emit ''room_update'' (To_room ''ROOM01'')] \<and>
   map_option (\<lambda>r. map fst (players r))
     (map_of (rooms (on_remove_player ''ROOM01'' ''carol'' (Some ''alice'') lobby3)) ''ROOM01'') =
     Some [''alice'', ''bob'']"
  by (simp add: on_disconnect_def on_remove_player_def lobby3_def emit_def emit_room_update_def
      Let_def)

end
